theory Spec2Isabelle
  imports Complex_Main
begin

section \<open>ArcadeShapeAnimation: shapes, their per-tick motion and the scene\<close>

text \<open>
  A shallow embedding of \<^verbatim>\<open>ArcadeShapeAnimation.py\<close>. Python numbers held in the
  kinematic attributes (a mixture of \<^verbatim>\<open>int\<close> and \<^verbatim>\<open>float\<close> at run time) are embedded
  as \<^typ>\<open>real\<close>: sums, differences, products and comparisons are the exact ones, and the
  rounding of IEEE doubles is not modelled. Attributes that only ever hold Python integers
  (the oscillation counter, loop indices, spoke counts) are \<^typ>\<open>int\<close>. Mutation of an
  object is explicit state passing, and a raised exception is the left injection of a sum.
\<close>

subsection \<open>Module constants\<close>

definition SCREEN_WIDTH :: int where
  "SCREEN_WIDTH = 800"

definition SCREEN_HEIGHT :: int where
  "SCREEN_HEIGHT = 560"

definition SCREEN_TITLE :: string where
  "SCREEN_TITLE = ''Shape Animation - Buffered''"

definition FPS :: int where
  "FPS = 30"

subsection \<open>Exceptions, colours and the drawing primitives of the graphics library\<close>

datatype error = ZeroDivisionError | AttributeError | TypeError

text \<open>A colour is a Python tuple of three or of four integers.\<close>

datatype color = RGB int int int | RGBA int int int int

text \<open>
  Modelled from the spec: the primitive shape descriptors of the external graphics library
  (section 4.5: line segment with two endpoints, colour and width; ellipse with centre,
  radii and colour). One constructor per library call made by the source, holding the
  arguments in the order the call gives them:
  \<^verbatim>\<open>create_line(start_x, start_y, end_x, end_y, color, line_width)\<close>,
  \<^verbatim>\<open>create_ellipse(center_x, center_y, width, height, color)\<close>,
  \<^verbatim>\<open>create_ellipse_filled(center_x, center_y, width, height, color, tilt_angle)\<close>.
\<close>

datatype primitive =
    create_line real real real real color real
  | create_ellipse real real real real color
  | create_ellipse_filled real real real real color real

text \<open>
  Modelled from the spec: the retained shape batch of the external graphics library
  (\<^verbatim>\<open>arcade.ShapeElementList\<close>, section 4.5): an ordered sequence of primitives, a mutable
  world transform (position and rotation), and a render call that draws the contained
  primitives under the current transform. A frame is the sequence of render calls issued
  since it was last cleared, each recorded with the batch as it was when rendered.
\<close>

record ShapeElementList =
  center_x :: real
  center_y :: real
  angle :: real
  elements :: "primitive list"

type_synonym frame = "ShapeElementList list"

definition ShapeElementList_new :: ShapeElementList where
  "ShapeElementList_new =
     \<lparr>center_x = 0, center_y = 0, ShapeElementList.angle = 0, elements = []\<rparr>"

definition ShapeElementList_append :: "ShapeElementList \<Rightarrow> primitive \<Rightarrow> ShapeElementList" where
  "ShapeElementList_append sl p = sl\<lparr>elements := elements sl @ [p]\<rparr>"

definition ShapeElementList_draw :: "ShapeElementList \<Rightarrow> frame \<Rightarrow> frame" where
  "ShapeElementList_draw sl fb = fb @ [sl]"

definition start_render :: "frame \<Rightarrow> frame" where
  "start_render fb = []"

subsection \<open>class Shape\<close>

text \<open>
  The attributes of \<^verbatim>\<open>Shape\<close> are a record; the extension slot of the record holds the
  class of the object and the attributes a subclass adds (\<^verbatim>\<open>Wheel.colors\<close>), so that the
  methods of \<^verbatim>\<open>Shape\<close> apply to objects of every subclass, as inherited methods do.
\<close>

datatype variant =
    is_Shape: Shape_cls
  | is_SnowDrop: SnowDrop_cls
  | is_Wheel: Wheel_cls (colors: "color list")
  | is_BouncingBall: BouncingBall_cls

record Shape =
  swd :: real
  sht :: real
  cx :: real
  cy :: real
  x :: real
  y :: real
  width :: real
  height :: real
  angle :: real
  delta_x :: real
  delta_y :: real
  delta_angle :: real
  color :: color
  count :: int
  shape_list :: "ShapeElementList option"

type_synonym entity = "variant Shape_scheme"

definition Shape_init ::
  "real \<Rightarrow> real \<Rightarrow> real \<Rightarrow> real \<Rightarrow> real \<Rightarrow> real \<Rightarrow> real \<Rightarrow> real \<Rightarrow> color \<Rightarrow> 'a
     \<Rightarrow> 'a Shape_scheme" where
  "Shape_init px py w h a dx dy da col cls =
     \<lparr>swd = of_int SCREEN_WIDTH,
      sht = of_int SCREEN_HEIGHT,
      cx = of_int SCREEN_WIDTH / 2,
      cy = of_int SCREEN_HEIGHT / 2,
      x = px,
      y = py,
      width = w,
      height = h,
      angle = a,
      delta_x = dx,
      delta_y = dy,
      delta_angle = da,
      color = col,
      count = 0,
      shape_list = None,
      \<dots> = cls\<rparr>"

text \<open>\<^verbatim>\<open>Shape.move\<close>: the three additions, then the four bounce tests in source order.\<close>

definition Shape_move :: "'a Shape_scheme \<Rightarrow> 'a Shape_scheme" where
  "Shape_move self0 =
     (let self = self0\<lparr>x := x self0 + delta_x self0\<rparr>;
          self = self\<lparr>y := y self + delta_y self\<rparr>;
          self = self\<lparr>angle := angle self + delta_angle self\<rparr>;
          self = (if x self < 0 \<and> delta_x self < 0
                  then self\<lparr>delta_x := delta_x self * (- 1)\<rparr> else self);
          self = (if y self < 0 \<and> delta_y self < 0
                  then self\<lparr>delta_y := delta_y self * (- 1)\<rparr> else self);
          self = (if x self > of_int SCREEN_WIDTH \<and> delta_x self > 0
                  then self\<lparr>delta_x := delta_x self * (- 1)\<rparr> else self);
          self = (if y self > of_int SCREEN_HEIGHT \<and> delta_y self > 0
                  then self\<lparr>delta_y := delta_y self * (- 1)\<rparr> else self)
      in self)"

text \<open>
  \<^verbatim>\<open>Shape.draw\<close>: writes the transform of the owned batch and issues its render call.
  With \<^verbatim>\<open>shape_list\<close> still \<^verbatim>\<open>None\<close> the first attribute assignment raises.
\<close>

definition Shape_draw :: "'a Shape_scheme \<Rightarrow> frame \<Rightarrow> error + ('a Shape_scheme \<times> frame)" where
  "Shape_draw self fb =
     (case shape_list self of
        None \<Rightarrow> Inl AttributeError
      | Some sl0 \<Rightarrow>
          (let sl = sl0\<lparr>center_x := x self\<rparr>;
               sl = sl\<lparr>center_y := y self\<rparr>;
               sl = sl\<lparr>ShapeElementList.angle := Shape.angle self\<rparr>
           in Inr (self\<lparr>shape_list := Some sl\<rparr>, ShapeElementList_draw sl fb)))"

subsection \<open>class SnowDrop\<close>

definition SnowDrop_init ::
  "real \<Rightarrow> real \<Rightarrow> real \<Rightarrow> real \<Rightarrow> real \<Rightarrow> real \<Rightarrow> real \<Rightarrow> real \<Rightarrow> color \<Rightarrow> entity" where
  "SnowDrop_init px py w h a dx dy da col =
     (let self = Shape_init px py w h a dx dy da col SnowDrop_cls;
          shape = create_ellipse_filled 0 0 (width self) (height self) (color self)
                    (Shape.angle self);
          sl = ShapeElementList_new;
          sl = ShapeElementList_append sl shape
      in self\<lparr>shape_list := Some sl\<rparr>)"

definition SnowDrop_move :: "'a Shape_scheme \<Rightarrow> 'a Shape_scheme" where
  "SnowDrop_move self0 =
     (let self = self0\<lparr>x := x self0 + delta_x self0\<rparr>;
          self = self\<lparr>count := count self + 1\<rparr>;
          self = (if count self > 4
                  then self\<lparr>delta_x := - delta_x self, count := 0\<rparr> else self);
          self = self\<lparr>y := y self - delta_y self\<rparr>;
          self = (if y self < 0
                  then self\<lparr>y := of_int (SCREEN_HEIGHT + 10)\<rparr> else self)
      in self)"

subsection \<open>class Wheel\<close>

text \<open>
  The body of \<^verbatim>\<open>for n in range(spokes)\<close>: the spoke line and its outer disc are appended
  to the batch. The index \<^verbatim>\<open>n % colorCount\<close> is within the palette, since \<open>n\<close> is not
  negative and the palette has three colours.
\<close>

definition Wheel_spoke ::
  "int \<Rightarrow> real \<Rightarrow> real \<Rightarrow> color list \<Rightarrow> int \<Rightarrow> ShapeElementList \<Rightarrow> ShapeElementList" where
  "Wheel_spoke n radius stepAngle cols colorCount sl0 =
     (let a = of_int n * stepAngle;
          end_x = radius * cos a;
          end_y = radius * sin a;
          col = cols ! nat (n mod colorCount);
          sp = create_line 0 0 end_x end_y col (0.1 * radius);
          sl = ShapeElementList_append sl0 sp;
          c_x = 1.2 * end_x;
          c_y = 1.2 * end_y;
          outerDiscSize = 0.3 * radius;
          ep = create_ellipse c_x c_y outerDiscSize outerDiscSize col;
          sl = ShapeElementList_append sl ep
      in sl)"

function Wheel_loop ::
  "int \<Rightarrow> int \<Rightarrow> real \<Rightarrow> real \<Rightarrow> color list \<Rightarrow> int \<Rightarrow> ShapeElementList \<Rightarrow> ShapeElementList" where
  "Wheel_loop n spokes radius stepAngle cols colorCount sl =
     (if n < spokes
      then Wheel_loop (n + 1) spokes radius stepAngle cols colorCount
             (Wheel_spoke n radius stepAngle cols colorCount sl)
      else sl)"
  by pat_completeness auto
termination
  by (relation "measure (\<lambda>(n, spokes, radius, stepAngle, cols, colorCount, sl). nat (spokes - n))")
    auto

text \<open>
  Python's true division \<^verbatim>\<open>a / b\<close> of two numbers: the operator itself raises
  \<^verbatim>\<open>ZeroDivisionError\<close> for a zero divisor.
\<close>

definition truediv :: "real \<Rightarrow> real \<Rightarrow> error + real" where
  "truediv a b = (if b = 0 then Inl ZeroDivisionError else Inr (a / b))"

text \<open>
  \<^verbatim>\<open>Wheel.__init__\<close>. The parameter \<^verbatim>\<open>angle\<close> is accepted and not used. The constructor
  tests nothing about \<^verbatim>\<open>spokes\<close>: the step angle \<^verbatim>\<open>(2 * math.pi) / spokes\<close> is computed
  by the division, and an exception of the division leaves the constructor before any
  primitive has been built.
\<close>

definition Wheel_init ::
  "real \<Rightarrow> real \<Rightarrow> real \<Rightarrow> int \<Rightarrow> real \<Rightarrow> real \<Rightarrow> real \<Rightarrow> real \<Rightarrow> error + entity" where
  "Wheel_init start_x start_y radius spokes a dx dy dAngle =
     (let self = Shape_init 0 0 20 20 0 dx dy dAngle (RGB 255 0 0) (Wheel_cls []);
          sl = ShapeElementList_new;
          self = self\<lparr>Shape.more := Wheel_cls [RGB 255 0 0, RGB 0 255 0, RGB 0 0 255]\<rparr>
      in case truediv (2 * pi) (of_int spokes) of
           Inl e \<Rightarrow> Inl e
         | Inr stepAngle \<Rightarrow>
           (let colorCount = int (length (colors (Shape.more self)));
                sl = Wheel_loop 0 spokes radius stepAngle (colors (Shape.more self))
                       colorCount sl;
                centerDiscSize = 0.15 * radius;
                ep = create_ellipse 0 0 centerDiscSize centerDiscSize (RGB 0 0 0);
                sl = ShapeElementList_append sl ep;
                self = self\<lparr>shape_list := Some sl\<rparr>;
                self = self\<lparr>x := start_x\<rparr>;
                self = self\<lparr>y := start_y\<rparr>
            in Inr self))"

subsection \<open>class BouncingBall\<close>

definition BouncingBall_init ::
  "real \<Rightarrow> real \<Rightarrow> real \<Rightarrow> real \<Rightarrow> real \<Rightarrow> real \<Rightarrow> color \<Rightarrow> entity" where
  "BouncingBall_init start_x start_y w h dx dy col =
     (let self = Shape_init 0 0 20 20 0 dx dy 0 (RGB 255 0 0) BouncingBall_cls;
          sl = ShapeElementList_new;
          ep = create_ellipse_filled 0 0 w h col 0;
          sl = ShapeElementList_append sl ep;
          self = self\<lparr>shape_list := Some sl\<rparr>;
          self = self\<lparr>x := start_x\<rparr>;
          self = self\<lparr>y := start_y\<rparr>
      in self)"

subsection \<open>Method dispatch\<close>

text \<open>
  \<^verbatim>\<open>shape.move()\<close> and \<^verbatim>\<open>shape.draw()\<close> on an object of the scene: only \<^verbatim>\<open>SnowDrop\<close>
  overrides \<^verbatim>\<open>move\<close>, and no class overrides \<^verbatim>\<open>draw\<close>.
\<close>

definition move :: "entity \<Rightarrow> entity" where
  "move shape =
     (case Shape.more shape of
        SnowDrop_cls \<Rightarrow> SnowDrop_move shape
      | _ \<Rightarrow> Shape_move shape)"

definition draw :: "entity \<Rightarrow> frame \<Rightarrow> error + (entity \<times> frame)" where
  "draw shape fb = Shape_draw shape fb"

subsection \<open>The random source\<close>

text \<open>
  \<^verbatim>\<open>random.randrange(start, stop)\<close> draws an integer \<open>r\<close> with \<open>start \<le> r < stop\<close>. The
  generator is an input of the model: an arbitrary sequence of naturals and the number of
  draws made so far. Every call in the source has \<open>start < stop\<close>.
\<close>

record rng =
  source :: "nat \<Rightarrow> nat"
  drawn :: nat

definition randrange :: "int \<Rightarrow> int \<Rightarrow> rng \<Rightarrow> int \<times> rng" where
  "randrange start stop g =
     (start + int (source g (drawn g) mod nat (stop - start)), g\<lparr>drawn := drawn g + 1\<rparr>)"

subsection \<open>class GamePlay\<close>

text \<open>
  The window attributes given to \<^verbatim>\<open>arcade.Window.__init__\<close> and the background colour set
  through \<^verbatim>\<open>arcade.set_background_color\<close> are kept as fields of the window object.
\<close>

record GamePlay =
  window_width :: int
  window_height :: int
  window_title :: string
  update_rate :: real
  background_color :: "color option"
  swd :: real
  sht :: real
  cx :: real
  cy :: real
  shapeList :: "entity list option"
  processing_time :: real
  draw_time :: real
  frame_count :: int
  fps_start_timer :: "real option"
  fps :: "real option"
  numSnowDrops :: int

definition GamePlay_init :: GamePlay where
  "GamePlay_init =
     \<lparr>window_width = SCREEN_WIDTH,
      window_height = SCREEN_HEIGHT,
      window_title = SCREEN_TITLE,
      update_rate = 1 / of_int FPS,
      background_color = None,
      swd = of_int SCREEN_WIDTH,
      sht = of_int SCREEN_HEIGHT,
      cx = of_int SCREEN_WIDTH / 2,
      cy = of_int SCREEN_HEIGHT / 2,
      shapeList = None,
      processing_time = 0,
      draw_time = 0,
      frame_count = 0,
      fps_start_timer = None,
      fps = None,
      numSnowDrops = 250\<rparr>"

text \<open>
  One iteration of the loop of \<^verbatim>\<open>GamePlay.setup\<close>, for the loop index \<open>n\<close>: everything
  indented under \<^verbatim>\<open>for n in range(self.numSnowDrops)\<close>, which is the snow drop, the four
  wheels and the two balls. The wheels take the default spoke count 3 and angle 0; the
  balls and wheels take the defaults of the parameters the calls leave out.
\<close>

definition setup_body ::
  "GamePlay \<Rightarrow> int \<Rightarrow> entity list \<Rightarrow> rng \<Rightarrow> error + (entity list \<times> rng)" where
  "setup_body self n shapeList0 g0 =
     (let (px, g) = randrange 0 SCREEN_WIDTH g0;
          (py, g) = randrange 0 SCREEN_HEIGHT g;
          (w, g) = randrange 2 6 g;
          (h, g) = randrange 2 6 g;
          a = 0;
          (r, g) = randrange 5 8 g;
          dx = of_int r / 10;
          (r, g) = randrange 5 8 g;
          dy = of_int r / 10;
          dAngle = 0;
          dx = (if n mod 2 > 0 then - dx else dx);
          (w, h) = (if n mod 10 = 0 then (2 * w, 2 * h) else (w, h));
          shape = SnowDrop_init (of_int px) (of_int py) (of_int w) (of_int h) a dx dy dAngle
                    (RGBA 255 255 255 255);
          sl = shapeList0 @ [shape]
      in case Wheel_init 0 (cy self) 150 3 0 1 0 1 of
           Inl e \<Rightarrow> Inl e
         | Inr shape \<Rightarrow>
      (let sl = sl @ [shape]
       in case Wheel_init (swd self) (cy self) 150 3 0 (- 1) 0 (- 1) of
           Inl e \<Rightarrow> Inl e
         | Inr shape \<Rightarrow>
      (let sl = sl @ [shape]
       in case Wheel_init (cx self) (sht self) 80 3 0 0 (- 2) 4 of
           Inl e \<Rightarrow> Inl e
         | Inr shape \<Rightarrow>
      (let sl = sl @ [shape]
       in case Wheel_init (cx self) 0 80 3 0 0 2 (- 4) of
           Inl e \<Rightarrow> Inl e
         | Inr shape \<Rightarrow>
      (let sl = sl @ [shape];
           shape = BouncingBall_init 0 0 80 100 4 4 (RGB 255 0 0);
           sl = sl @ [shape];
           shape = BouncingBall_init (swd self) 0 80 100 (- 4) 4 (RGB 0 255 0);
           sl = sl @ [shape]
       in Inr (sl, g))))))"

function setup_loop ::
  "GamePlay \<Rightarrow> int \<Rightarrow> entity list \<Rightarrow> rng \<Rightarrow> error + (entity list \<times> rng)" where
  "setup_loop self n sl g =
     (if n < numSnowDrops self
      then (case setup_body self n sl g of
              Inl e \<Rightarrow> Inl e
            | Inr (sl', g') \<Rightarrow> setup_loop self (n + 1) sl' g')
      else Inr (sl, g))"
  by pat_completeness auto
termination
  by (relation "measure (\<lambda>(self, n, sl, g). nat (numSnowDrops self - n))") auto

definition GamePlay_setup :: "GamePlay \<Rightarrow> rng \<Rightarrow> error + (GamePlay \<times> rng)" where
  "GamePlay_setup self0 g =
     (let self = self0\<lparr>background_color := Some (RGB 70 70 70)\<rparr>;
          self = self\<lparr>shapeList := Some []\<rparr>
      in case setup_loop self 0 [] g of
           Inl e \<Rightarrow> Inl e
         | Inr (sl, g') \<Rightarrow> Inr (self\<lparr>shapeList := Some sl\<rparr>, g'))"

text \<open>
  \<^verbatim>\<open>GamePlay.on_update\<close>: the loop over the collection, front to back. Iterating over
  \<^verbatim>\<open>None\<close> (no \<^verbatim>\<open>setup\<close> yet) raises \<^verbatim>\<open>TypeError\<close>.
\<close>

fun on_update_loop :: "entity list \<Rightarrow> entity list" where
  "on_update_loop [] = []"
| "on_update_loop (shape # rest) = (let shape' = move shape in shape' # on_update_loop rest)"

definition on_update :: "GamePlay \<Rightarrow> real \<Rightarrow> error + GamePlay" where
  "on_update self dt =
     (case shapeList self of
        None \<Rightarrow> Inl TypeError
      | Some sl \<Rightarrow> Inr (self\<lparr>shapeList := Some (on_update_loop sl)\<rparr>))"

text \<open>
  \<^verbatim>\<open>GamePlay.on_draw\<close>: the frame is cleared, then every object is drawn, front to back;
  an exception raised by one \<^verbatim>\<open>draw\<close> ends the loop.
\<close>

fun on_draw_loop :: "entity list \<Rightarrow> frame \<Rightarrow> error + (entity list \<times> frame)" where
  "on_draw_loop [] fb = Inr ([], fb)"
| "on_draw_loop (shape # rest) fb =
     (case draw shape fb of
        Inl e \<Rightarrow> Inl e
      | Inr (shape', fb') \<Rightarrow>
          (case on_draw_loop rest fb' of
             Inl e \<Rightarrow> Inl e
           | Inr (rest', fb'') \<Rightarrow> Inr (shape' # rest', fb'')))"

definition on_draw :: "GamePlay \<Rightarrow> frame \<Rightarrow> error + (GamePlay \<times> frame)" where
  "on_draw self fb0 =
     (let fb = start_render fb0
      in case shapeList self of
           None \<Rightarrow> Inl TypeError
         | Some sl \<Rightarrow>
             (case on_draw_loop sl fb of
                Inl e \<Rightarrow> Inl e
              | Inr (sl', fb') \<Rightarrow> Inr (self\<lparr>shapeList := Some sl'\<rparr>, fb')))"

section \<open>Properties\<close>

declare Wheel_loop.simps [simp del]

declare setup_loop.simps [simp del]

subsection \<open>Closed forms of the two \<^verbatim>\<open>move\<close> methods\<close>

lemma if_delta_x_update:
  "(if c then s\<lparr>delta_x := v\<rparr> else s) = s\<lparr>delta_x := (if c then v else delta_x s)\<rparr>"
  by simp

lemma if_delta_y_update:
  "(if c then s\<lparr>delta_y := v\<rparr> else s) = s\<lparr>delta_y := (if c then v else delta_y s)\<rparr>"
  by simp

lemma if_y_update:
  "(if c then s\<lparr>y := v\<rparr> else s) = s\<lparr>y := (if c then v else y s)\<rparr>"
  by simp

lemma if_delta_x_count_update:
  "(if c then s\<lparr>delta_x := v, count := k\<rparr> else s) =
     s\<lparr>delta_x := (if c then v else delta_x s), count := (if c then k else count s)\<rparr>"
  by simp

lemma Shape_move_eq:
  "Shape_move s =
     s\<lparr>x := x s + delta_x s,
       y := y s + delta_y s,
       angle := Shape.angle s + delta_angle s,
       delta_x :=
         (if x s + delta_x s < 0 \<and> delta_x s < 0 then - delta_x s
          else if x s + delta_x s > of_int SCREEN_WIDTH \<and> delta_x s > 0 then - delta_x s
          else delta_x s),
       delta_y :=
         (if y s + delta_y s < 0 \<and> delta_y s < 0 then - delta_y s
          else if y s + delta_y s > of_int SCREEN_HEIGHT \<and> delta_y s > 0 then - delta_y s
          else delta_y s)\<rparr>"
  unfolding Shape_move_def Let_def if_delta_x_update if_delta_y_update
  by (simp add: SCREEN_WIDTH_def SCREEN_HEIGHT_def)


lemma SnowDrop_move_eq:
  "SnowDrop_move s =
     s\<lparr>x := x s + delta_x s,
       count := (if count s + 1 > 4 then 0 else count s + 1),
       delta_x := (if count s + 1 > 4 then - delta_x s else delta_x s),
       y := (if y s - delta_y s < 0 then of_int (SCREEN_HEIGHT + 10) else y s - delta_y s)\<rparr>"
  unfolding SnowDrop_move_def Let_def if_y_update if_delta_x_count_update
  by simp

lemma Shape_move_delta_x:
  "delta_x (Shape_move s) =
     (if x s + delta_x s < 0 \<and> delta_x s < 0 then - delta_x s
      else if x s + delta_x s > of_int SCREEN_WIDTH \<and> delta_x s > 0 then - delta_x s
      else delta_x s)"
  by (simp add: Shape_move_eq)

lemma Shape_move_delta_y:
  "delta_y (Shape_move s) =
     (if y s + delta_y s < 0 \<and> delta_y s < 0 then - delta_y s
      else if y s + delta_y s > of_int SCREEN_HEIGHT \<and> delta_y s > 0 then - delta_y s
      else delta_y s)"
  by (simp add: Shape_move_eq)

lemma Shape_move_x: "x (Shape_move s) = x s + delta_x s"
  by (simp add: Shape_move_eq)

lemma Shape_move_y: "y (Shape_move s) = y s + delta_y s"
  by (simp add: Shape_move_eq)

lemma BouncingBall_init_eq:
  "BouncingBall_init start_x start_y w h dx dy col =
     \<lparr>Shape.swd = 800, Shape.sht = 560, Shape.cx = 400, Shape.cy = 280, x = start_x, y = start_y,
      width = 20, height = 20, angle = 0, delta_x = dx, delta_y = dy, delta_angle = 0,
      color = RGB 255 0 0, count = 0,
      shape_list = Some \<lparr>center_x = 0, center_y = 0, ShapeElementList.angle = 0,
        elements = [create_ellipse_filled 0 0 w h col 0]\<rparr>,
      \<dots> = BouncingBall_cls\<rparr>"
  by (simp add: BouncingBall_init_def Shape_init_def Let_def ShapeElementList_new_def
      ShapeElementList_append_def SCREEN_WIDTH_def SCREEN_HEIGHT_def)

subsection \<open>The bounce rule of \<^verbatim>\<open>Shape.move\<close>\<close>

lemma Shape_move_twice:
  fixes p d hi :: real
  defines "d' \<equiv> (if p + d < 0 \<and> d < 0 then - d else if p + d > hi \<and> d > 0 then - d else d)"
  defines "d'' \<equiv> (if p + d + d' < 0 \<and> d' < 0 then - d'
                    else if p + d + d' > hi \<and> d' > 0 then - d' else d')"
  shows "p + d < 0 \<and> d < 0 \<and> p + d + d' \<le> hi \<Longrightarrow> d'' = - d"
    and "p + d > hi \<and> d > 0 \<and> p + d + d' \<ge> 0 \<Longrightarrow> d'' = - d"
  unfolding d''_def d'_def by (simp_all split: if_splits)

lemma Shape_move_twice_x:
  "x (Shape_move s) < 0 \<and> delta_x s < 0 \<and>
     x (Shape_move (Shape_move s)) \<le> of_int SCREEN_WIDTH \<Longrightarrow>
   delta_x (Shape_move (Shape_move s)) = - delta_x s"
  "x (Shape_move s) > of_int SCREEN_WIDTH \<and> delta_x s > 0 \<and>
     x (Shape_move (Shape_move s)) \<ge> 0 \<Longrightarrow>
   delta_x (Shape_move (Shape_move s)) = - delta_x s"
  using Shape_move_twice [where p = "x s" and d = "delta_x s" and hi = "of_int SCREEN_WIDTH"]
  unfolding Shape_move_x Shape_move_delta_x by blast+

lemma Shape_move_twice_y:
  "y (Shape_move s) < 0 \<and> delta_y s < 0 \<and>
     y (Shape_move (Shape_move s)) \<le> of_int SCREEN_HEIGHT \<Longrightarrow>
   delta_y (Shape_move (Shape_move s)) = - delta_y s"
  "y (Shape_move s) > of_int SCREEN_HEIGHT \<and> delta_y s > 0 \<and>
     y (Shape_move (Shape_move s)) \<ge> 0 \<Longrightarrow>
   delta_y (Shape_move (Shape_move s)) = - delta_y s"
  using Shape_move_twice [where p = "y s" and d = "delta_y s" and hi = "of_int SCREEN_HEIGHT"]
  unfolding Shape_move_y Shape_move_delta_y by blast+

text \<open>
  Claim C1. The bounce rule of \<^verbatim>\<open>Shape.move\<close> is triggered by the direction of the
  velocity and not by containment. After one call, if the new position on an axis is below 0
  while the delta on that axis is negative, or above the screen extent while the delta is
  positive, the delta on that axis is negated. On the following call the delta is not
  negated again, whether or not the position is still out of bounds, as long as the entity
  has not passed the opposite edge (it is still moving back inward). The entity at \<open>x = 0\<close>
  with \<open>delta_x = - 2\<close> is the witness: \<open>delta_x = 2\<close> after one call and after two.
\<close>

theorem Shape_move_bounce_edge_triggered:
  "(x (Shape_move s) < 0 \<and> delta_x s < 0 \<longrightarrow> delta_x (Shape_move s) = - delta_x s) \<and>
   (x (Shape_move s) > of_int SCREEN_WIDTH \<and> delta_x s > 0 \<longrightarrow>
      delta_x (Shape_move s) = - delta_x s) \<and>
   (y (Shape_move s) < 0 \<and> delta_y s < 0 \<longrightarrow> delta_y (Shape_move s) = - delta_y s) \<and>
   (y (Shape_move s) > of_int SCREEN_HEIGHT \<and> delta_y s > 0 \<longrightarrow>
      delta_y (Shape_move s) = - delta_y s) \<and>
   (x (Shape_move s) < 0 \<and> delta_x s < 0 \<and>
    x (Shape_move (Shape_move s)) \<le> of_int SCREEN_WIDTH \<longrightarrow>
      delta_x (Shape_move (Shape_move s)) = - delta_x s) \<and>
   (x (Shape_move s) > of_int SCREEN_WIDTH \<and> delta_x s > 0 \<and>
    x (Shape_move (Shape_move s)) \<ge> 0 \<longrightarrow>
      delta_x (Shape_move (Shape_move s)) = - delta_x s) \<and>
   (y (Shape_move s) < 0 \<and> delta_y s < 0 \<and>
    y (Shape_move (Shape_move s)) \<le> of_int SCREEN_HEIGHT \<longrightarrow>
      delta_y (Shape_move (Shape_move s)) = - delta_y s) \<and>
   (y (Shape_move s) > of_int SCREEN_HEIGHT \<and> delta_y s > 0 \<and>
    y (Shape_move (Shape_move s)) \<ge> 0 \<longrightarrow>
      delta_y (Shape_move (Shape_move s)) = - delta_y s)"
proof (intro conjI impI)
  assume "x (Shape_move s) < 0 \<and> delta_x s < 0"
  then show "delta_x (Shape_move s) = - delta_x s"
    by (simp add: Shape_move_delta_x Shape_move_x)
next
  assume "x (Shape_move s) > of_int SCREEN_WIDTH \<and> delta_x s > 0"
  then show "delta_x (Shape_move s) = - delta_x s"
    by (simp add: Shape_move_delta_x Shape_move_x)
next
  assume "y (Shape_move s) < 0 \<and> delta_y s < 0"
  then show "delta_y (Shape_move s) = - delta_y s"
    by (simp add: Shape_move_delta_y Shape_move_y)
next
  assume "y (Shape_move s) > of_int SCREEN_HEIGHT \<and> delta_y s > 0"
  then show "delta_y (Shape_move s) = - delta_y s"
    by (simp add: Shape_move_delta_y Shape_move_y)
next
  assume "x (Shape_move s) < 0 \<and> delta_x s < 0 \<and>
    x (Shape_move (Shape_move s)) \<le> of_int SCREEN_WIDTH"
  then show "delta_x (Shape_move (Shape_move s)) = - delta_x s"
    by (rule Shape_move_twice_x)
next
  assume "x (Shape_move s) > of_int SCREEN_WIDTH \<and> delta_x s > 0 \<and>
    x (Shape_move (Shape_move s)) \<ge> 0"
  then show "delta_x (Shape_move (Shape_move s)) = - delta_x s"
    by (rule Shape_move_twice_x)
next
  assume "y (Shape_move s) < 0 \<and> delta_y s < 0 \<and>
    y (Shape_move (Shape_move s)) \<le> of_int SCREEN_HEIGHT"
  then show "delta_y (Shape_move (Shape_move s)) = - delta_y s"
    by (rule Shape_move_twice_y)
next
  assume "y (Shape_move s) > of_int SCREEN_HEIGHT \<and> delta_y s > 0 \<and>
    y (Shape_move (Shape_move s)) \<ge> 0"
  then show "delta_y (Shape_move (Shape_move s)) = - delta_y s"
    by (rule Shape_move_twice_y)
qed

theorem Shape_move_bounce_edge_triggered_witness:
  "x (BouncingBall_init 0 0 80 100 (- 2) (- 2) (RGB 255 0 0)) = 0 \<and>
   delta_x (BouncingBall_init 0 0 80 100 (- 2) (- 2) (RGB 255 0 0)) = - 2 \<and>
   x (Shape_move (BouncingBall_init 0 0 80 100 (- 2) (- 2) (RGB 255 0 0))) = - 2 \<and>
   delta_x (Shape_move (BouncingBall_init 0 0 80 100 (- 2) (- 2) (RGB 255 0 0))) = 2 \<and>
   x (Shape_move (Shape_move (BouncingBall_init 0 0 80 100 (- 2) (- 2) (RGB 255 0 0)))) = 0 \<and>
   delta_x (Shape_move (Shape_move (BouncingBall_init 0 0 80 100 (- 2) (- 2) (RGB 255 0 0)))) = 2 \<and>
   delta_y (Shape_move (BouncingBall_init 0 0 80 100 (- 2) (- 2) (RGB 255 0 0))) = 2 \<and>
   delta_y (Shape_move (Shape_move (BouncingBall_init 0 0 80 100 (- 2) (- 2) (RGB 255 0 0)))) = 2 \<and>
   x (Shape_move (BouncingBall_init 800 560 80 100 2 2 (RGB 255 0 0))) = 802 \<and>
   delta_x (Shape_move (BouncingBall_init 800 560 80 100 2 2 (RGB 255 0 0))) = - 2 \<and>
   delta_x (Shape_move (Shape_move (BouncingBall_init 800 560 80 100 2 2 (RGB 255 0 0)))) = - 2 \<and>
   y (Shape_move (BouncingBall_init 800 560 80 100 2 2 (RGB 255 0 0))) = 562 \<and>
   delta_y (Shape_move (BouncingBall_init 800 560 80 100 2 2 (RGB 255 0 0))) = - 2 \<and>
   delta_y (Shape_move (Shape_move (BouncingBall_init 800 560 80 100 2 2 (RGB 255 0 0)))) = - 2"
  using Shape_move_bounce_edge_triggered [of "BouncingBall_init 0 0 80 100 (- 2) (- 2) (RGB 255 0 0)"]
    Shape_move_bounce_edge_triggered [of "BouncingBall_init 800 560 80 100 2 2 (RGB 255 0 0)"]
  by (simp add: BouncingBall_init_eq Shape_move_x Shape_move_y Shape_move_delta_x
      Shape_move_delta_y SCREEN_WIDTH_def SCREEN_HEIGHT_def)

subsection \<open>The falling particle\<close>

lemma SnowDrop_ticks:
  "count s = 0 \<Longrightarrow>
     count ((SnowDrop_move ^^ n) s) = int (n mod 5) \<and>
     delta_x ((SnowDrop_move ^^ n) s) = (- 1) ^ (n div 5) * delta_x s"
proof (induction n)
  case 0
  then show ?case by simp
next
  case (Suc n)
  have m: "n mod 5 < 5" by simp
  show ?case
  proof (cases "n mod 5 = 4")
    case True
    then have "Suc n mod 5 = 0" "Suc n div 5 = Suc (n div 5)"
      by (simp_all add: mod_Suc div_Suc)
    with Suc True show ?thesis
      by (simp add: SnowDrop_move_eq)
  next
    case False
    with m have "Suc n mod 5 = Suc (n mod 5)" "Suc n div 5 = n div 5" "n mod 5 < 4"
      by (simp_all add: mod_Suc div_Suc)
    with Suc show ?thesis
      by (simp add: SnowDrop_move_eq)
  qed
qed

text \<open>
  Claim C3. Each call of \<^verbatim>\<open>SnowDrop.move\<close> increments the counter; when the incremented
  counter exceeds 4, \<open>delta_x\<close> is negated and the counter is reset to 0. Starting from
  counter 0, after \<open>n\<close> calls \<open>delta_x\<close> has been negated \<open>n div 5\<close> times: its sign flips
  exactly once every 5 ticks.
\<close>

theorem SnowDrop_move_oscillation:
  "count (SnowDrop_move s) = (if count s + 1 > 4 then 0 else count s + 1) \<and>
   delta_x (SnowDrop_move s) = (if count s + 1 > 4 then - delta_x s else delta_x s) \<and>
   (count s = 0 \<longrightarrow>
      delta_x ((SnowDrop_move ^^ n) s) = (- 1) ^ (n div 5) * delta_x s)"
  by (simp add: SnowDrop_move_eq SnowDrop_ticks)

theorem SnowDrop_move_oscillation_witness:
  "count (SnowDrop_init 3 7 2 2 0 (1/2) (1/2) 0 (RGBA 255 255 255 255)) = 0 \<and>
   delta_x ((SnowDrop_move ^^ 4) (SnowDrop_init 3 7 2 2 0 (1/2) (1/2) 0 (RGBA 255 255 255 255)))
     = 1/2 \<and>
   delta_x ((SnowDrop_move ^^ 5) (SnowDrop_init 3 7 2 2 0 (1/2) (1/2) 0 (RGBA 255 255 255 255)))
     = - (1/2) \<and>
   delta_x ((SnowDrop_move ^^ 9) (SnowDrop_init 3 7 2 2 0 (1/2) (1/2) 0 (RGBA 255 255 255 255)))
     = - (1/2) \<and>
   delta_x ((SnowDrop_move ^^ 10) (SnowDrop_init 3 7 2 2 0 (1/2) (1/2) 0 (RGBA 255 255 255 255)))
     = 1/2"
  using SnowDrop_move_oscillation [of "SnowDrop_init 3 7 2 2 0 (1/2) (1/2) 0 (RGBA 255 255 255 255)" 4]
    SnowDrop_move_oscillation [of "SnowDrop_init 3 7 2 2 0 (1/2) (1/2) 0 (RGBA 255 255 255 255)" 5]
    SnowDrop_move_oscillation [of "SnowDrop_init 3 7 2 2 0 (1/2) (1/2) 0 (RGBA 255 255 255 255)" 9]
    SnowDrop_move_oscillation [of "SnowDrop_init 3 7 2 2 0 (1/2) (1/2) 0 (RGBA 255 255 255 255)" 10]
  by (simp add: SnowDrop_init_def Shape_init_def Let_def del: funpow.simps)

text \<open>
  Claim C4. \<^verbatim>\<open>SnowDrop.move\<close> decrements \<open>y\<close> by \<open>delta_y\<close>; if the result is below 0,
  \<open>y\<close> is set to exactly the screen height plus 10, otherwise \<open>y\<close> keeps the decremented
  value. In both cases \<open>delta_y\<close> is unchanged: the particle wraps and does not bounce.
\<close>

theorem SnowDrop_move_wrap:
  "delta_y (SnowDrop_move s) = delta_y s \<and>
   (y s - delta_y s < 0 \<longrightarrow> y (SnowDrop_move s) = of_int SCREEN_HEIGHT + 10) \<and>
   (\<not> y s - delta_y s < 0 \<longrightarrow> y (SnowDrop_move s) = y s - delta_y s)"
  by (simp add: SnowDrop_move_eq)

theorem SnowDrop_move_wrap_witness:
  "(0::real) - 1 < 0 \<and>
   y (SnowDrop_move (SnowDrop_init 3 0 2 2 0 (1/2) 1 0 (RGBA 255 255 255 255))) = 570 \<and>
   delta_y (SnowDrop_move (SnowDrop_init 3 0 2 2 0 (1/2) 1 0 (RGBA 255 255 255 255))) = 1 \<and>
   \<not> (7::real) - 1 < 0 \<and>
   y (SnowDrop_move (SnowDrop_init 3 7 2 2 0 (1/2) 1 0 (RGBA 255 255 255 255))) = 6"
  using SnowDrop_move_wrap [of "SnowDrop_init 3 0 2 2 0 (1/2) 1 0 (RGBA 255 255 255 255)"]
    SnowDrop_move_wrap [of "SnowDrop_init 3 7 2 2 0 (1/2) 1 0 (RGBA 255 255 255 255)"]
  by (simp add: SnowDrop_init_def Shape_init_def Let_def SCREEN_HEIGHT_def)

text \<open>
  Claim C10. The counter of a falling particle stays in the range 0 to 4: one call of
  \<^verbatim>\<open>SnowDrop.move\<close> keeps it there, and starting from 0 it is there after any number of
  calls.
\<close>

theorem SnowDrop_count_bounded:
  "(0 \<le> count s \<and> count s \<le> 4 \<longrightarrow>
      0 \<le> count (SnowDrop_move s) \<and> count (SnowDrop_move s) \<le> 4) \<and>
   (count s = 0 \<longrightarrow>
      0 \<le> count ((SnowDrop_move ^^ n) s) \<and> count ((SnowDrop_move ^^ n) s) \<le> 4)"
proof (intro conjI impI)
  assume "0 \<le> count s \<and> count s \<le> 4"
  then show "0 \<le> count (SnowDrop_move s)" "count (SnowDrop_move s) \<le> 4"
    by (simp_all add: SnowDrop_move_eq)
next
  assume c: "count s = 0"
  have "n mod 5 < 5" by simp
  then have "int (n mod 5) \<le> 4" by linarith
  with SnowDrop_ticks [OF c, of n]
  show "0 \<le> count ((SnowDrop_move ^^ n) s)" "count ((SnowDrop_move ^^ n) s) \<le> 4"
    by simp_all
qed

theorem SnowDrop_count_bounded_witness:
  "count (SnowDrop_init 3 7 2 2 0 (1/2) (1/2) 0 (RGBA 255 255 255 255)) = 0 \<and>
   0 \<le> count ((SnowDrop_move ^^ 12)
          (SnowDrop_init 3 7 2 2 0 (1/2) (1/2) 0 (RGBA 255 255 255 255))) \<and>
   count ((SnowDrop_move ^^ 12)
          (SnowDrop_init 3 7 2 2 0 (1/2) (1/2) 0 (RGBA 255 255 255 255))) \<le> 4 \<and>
   count (SnowDrop_move (SnowDrop_init 3 7 2 2 0 (1/2) (1/2) 0 (RGBA 255 255 255 255))) = 1"
  using SnowDrop_count_bounded
    [of "SnowDrop_init 3 7 2 2 0 (1/2) (1/2) 0 (RGBA 255 255 255 255)" 12]
  by (simp add: SnowDrop_init_def Shape_init_def Let_def SnowDrop_move_eq del: funpow.simps)

subsection \<open>Motion with zero deltas\<close>

lemma Shape_move_zero:
  "delta_x s = 0 \<Longrightarrow> delta_y s = 0 \<Longrightarrow> delta_angle s = 0 \<Longrightarrow> Shape_move s = s"
  by (simp add: Shape_move_eq)

lemma move_zero_step:
  fixes e :: entity
  assumes "delta_x e = 0" "delta_y e = 0" "delta_angle e = 0"
    "is_SnowDrop (Shape.more e) \<longrightarrow> 0 \<le> y e"
  shows "delta_x (move e) = 0 \<and> delta_y (move e) = 0 \<and> delta_angle (move e) = 0 \<and>
         Shape.more (move e) = Shape.more e \<and> x (move e) = x e \<and> y (move e) = y e"
proof (cases "Shape.more e")
  case SnowDrop_cls
  with assms show ?thesis
    by (simp add: move_def SnowDrop_move_eq)
qed (use assms in \<open>simp_all add: move_def Shape_move_zero\<close>)

lemma move_zero_ticks:
  fixes e :: entity
  assumes "delta_x e = 0" "delta_y e = 0" "delta_angle e = 0"
    "is_SnowDrop (Shape.more e) \<longrightarrow> 0 \<le> y e"
  shows "delta_x ((move ^^ n) e) = 0 \<and> delta_y ((move ^^ n) e) = 0 \<and>
         delta_angle ((move ^^ n) e) = 0 \<and> Shape.more ((move ^^ n) e) = Shape.more e \<and>
         x ((move ^^ n) e) = x e \<and> y ((move ^^ n) e) = y e"
proof (induction n)
  case 0
  from assms show ?case by simp
next
  case (Suc n)
  then have "is_SnowDrop (Shape.more ((move ^^ n) e)) \<longrightarrow> 0 \<le> y ((move ^^ n) e)"
    using assms(4) by simp
  with Suc move_zero_step [of "(move ^^ n) e"] show ?case
    by simp
qed

text \<open>
  Claim C6, as amended. For every entity other than a falling particle whose \<open>y\<close> is below
  0, applying the per-tick \<^verbatim>\<open>move\<close> any number of times with \<open>delta_x\<close>, \<open>delta_y\<close> and
  \<open>delta_angle\<close> all zero leaves the position \<open>(x, y)\<close> unchanged.
\<close>

theorem move_zero_deltas_position:
  fixes e :: entity
  shows "delta_x e = 0 \<and> delta_y e = 0 \<and> delta_angle e = 0 \<and>
         (is_SnowDrop (Shape.more e) \<longrightarrow> 0 \<le> y e) \<longrightarrow>
         x ((move ^^ n) e) = x e \<and> y ((move ^^ n) e) = y e"
  using move_zero_ticks [of e n] by blast

lemma SnowDrop_init_eq:
  "SnowDrop_init px py w h a dx dy da col =
     \<lparr>Shape.swd = 800, Shape.sht = 560, Shape.cx = 400, Shape.cy = 280, x = px, y = py,
      width = w, height = h, angle = a, delta_x = dx, delta_y = dy, delta_angle = da,
      color = col, count = 0,
      shape_list = Some \<lparr>center_x = 0, center_y = 0, ShapeElementList.angle = 0,
        elements = [create_ellipse_filled 0 0 w h col a]\<rparr>,
      \<dots> = SnowDrop_cls\<rparr>"
  by (simp add: SnowDrop_init_def Shape_init_def Let_def ShapeElementList_new_def
      ShapeElementList_append_def SCREEN_WIDTH_def SCREEN_HEIGHT_def)

theorem move_zero_deltas_position_witness:
  "delta_x (SnowDrop_init 3 7 2 2 0 0 0 0 (RGBA 255 255 255 255)) = 0 \<and>
   delta_y (SnowDrop_init 3 7 2 2 0 0 0 0 (RGBA 255 255 255 255)) = 0 \<and>
   delta_angle (SnowDrop_init 3 7 2 2 0 0 0 0 (RGBA 255 255 255 255)) = 0 \<and>
   is_SnowDrop (Shape.more (SnowDrop_init 3 7 2 2 0 0 0 0 (RGBA 255 255 255 255))) \<and>
   0 \<le> y (SnowDrop_init 3 7 2 2 0 0 0 0 (RGBA 255 255 255 255)) \<and>
   x ((move ^^ 6) (SnowDrop_init 3 7 2 2 0 0 0 0 (RGBA 255 255 255 255))) = 3 \<and>
   y ((move ^^ 6) (SnowDrop_init 3 7 2 2 0 0 0 0 (RGBA 255 255 255 255))) = 7 \<and>
   \<not> is_SnowDrop (Shape.more (BouncingBall_init 0 (- 1) 80 100 0 0 (RGB 255 0 0))) \<and>
   x ((move ^^ 6) (BouncingBall_init 0 (- 1) 80 100 0 0 (RGB 255 0 0))) = 0 \<and>
   y ((move ^^ 6) (BouncingBall_init 0 (- 1) 80 100 0 0 (RGB 255 0 0))) = - 1"
  using move_zero_deltas_position [of "SnowDrop_init 3 7 2 2 0 0 0 0 (RGBA 255 255 255 255)" 6]
    move_zero_deltas_position [of "BouncingBall_init 0 (- 1) 80 100 0 0 (RGB 255 0 0)" 6]
  by (simp add: SnowDrop_init_eq BouncingBall_init_eq del: funpow.simps)

text \<open>
  Claim C6 as first stated, for every entity, fails for a falling particle constructed
  below the bottom edge: with all deltas zero, \<^verbatim>\<open>SnowDrop.move\<close> still wraps \<open>y = - 1\<close> to
  the screen height plus 10.
\<close>

theorem move_zero_deltas_counterexample:
  "delta_x (SnowDrop_init 0 (- 1) 2 2 0 0 0 0 (RGBA 255 255 255 255)) = 0 \<and>
   delta_y (SnowDrop_init 0 (- 1) 2 2 0 0 0 0 (RGBA 255 255 255 255)) = 0 \<and>
   delta_angle (SnowDrop_init 0 (- 1) 2 2 0 0 0 0 (RGBA 255 255 255 255)) = 0 \<and>
   y (SnowDrop_init 0 (- 1) 2 2 0 0 0 0 (RGBA 255 255 255 255)) = - 1 \<and>
   y ((move ^^ 1) (SnowDrop_init 0 (- 1) 2 2 0 0 0 0 (RGBA 255 255 255 255))) = 570"
  by (simp add: SnowDrop_init_eq move_def SnowDrop_move_eq SCREEN_HEIGHT_def)

lemma move_shape_list: "shape_list (move e) = shape_list e"
  by (cases "Shape.more e") (simp_all add: move_def Shape_move_eq SnowDrop_move_eq)

lemma draw_Some:
  "shape_list e = Some sl \<Longrightarrow>
   draw e fb =
     Inr (e\<lparr>shape_list := Some (sl\<lparr>center_x := x e, center_y := y e,
                                   ShapeElementList.angle := Shape.angle e\<rparr>)\<rparr>,
          fb @ [sl\<lparr>center_x := x e, center_y := y e, ShapeElementList.angle := Shape.angle e\<rparr>])"
  by (simp add: draw_def Shape_draw_def Let_def ShapeElementList_draw_def)

lemma draw_None: "shape_list e = None \<Longrightarrow> draw e fb = Inl AttributeError"
  by (simp add: draw_def Shape_draw_def)

subsection \<open>Drawing\<close>

text \<open>
  Claim C9. No operation changes a primitive inside a batch after construction: \<^verbatim>\<open>move\<close>
  leaves the batch as it is, and \<^verbatim>\<open>draw\<close> on an entity that owns a batch returns having
  written only the transform of the batch (\<open>center_x\<close>, \<open>center_y\<close>, \<open>angle\<close>) from the
  position and angle of the entity and issued one render call of that batch; the contents
  of the batch and every other attribute of the entity are unchanged. On an entity without
  a batch \<^verbatim>\<open>draw\<close> raises and changes nothing.
\<close>

theorem draw_writes_transform_only:
  "shape_list (move e) = shape_list e \<and>
   (shape_list e = Some sl \<longrightarrow>
      draw e fb =
        Inr (e\<lparr>shape_list := Some (sl\<lparr>center_x := x e, center_y := y e,
                                      ShapeElementList.angle := Shape.angle e\<rparr>)\<rparr>,
             fb @ [sl\<lparr>center_x := x e, center_y := y e,
                      ShapeElementList.angle := Shape.angle e\<rparr>]) \<and>
      elements (sl\<lparr>center_x := x e, center_y := y e,
                   ShapeElementList.angle := Shape.angle e\<rparr>) = elements sl) \<and>
   (shape_list e = None \<longrightarrow> draw e fb = Inl AttributeError)"
proof (intro conjI impI)
  show "shape_list (move e) = shape_list e"
    by (rule move_shape_list)
next
  assume "shape_list e = Some sl"
  then show "draw e fb =
        Inr (e\<lparr>shape_list := Some (sl\<lparr>center_x := x e, center_y := y e,
                                      ShapeElementList.angle := Shape.angle e\<rparr>)\<rparr>,
             fb @ [sl\<lparr>center_x := x e, center_y := y e,
                      ShapeElementList.angle := Shape.angle e\<rparr>])"
    by (rule draw_Some)
next
  show "elements (sl\<lparr>center_x := x e, center_y := y e,
                   ShapeElementList.angle := Shape.angle e\<rparr>) = elements sl"
    by simp
next
  assume "shape_list e = None"
  then show "draw e fb = Inl AttributeError"
    by (rule draw_None)
qed

theorem draw_writes_transform_only_witness:
  "shape_list (BouncingBall_init 3 4 80 100 4 4 (RGB 255 0 0)) =
     Some \<lparr>center_x = 0, center_y = 0, ShapeElementList.angle = 0,
       elements = [create_ellipse_filled 0 0 80 100 (RGB 255 0 0) 0]\<rparr> \<and>
   draw (BouncingBall_init 3 4 80 100 4 4 (RGB 255 0 0)) [] =
     Inr ((BouncingBall_init 3 4 80 100 4 4 (RGB 255 0 0))
            \<lparr>shape_list := Some \<lparr>center_x = 3, center_y = 4, ShapeElementList.angle = 0,
               elements = [create_ellipse_filled 0 0 80 100 (RGB 255 0 0) 0]\<rparr>\<rparr>,
          [\<lparr>center_x = 3, center_y = 4, ShapeElementList.angle = 0,
            elements = [create_ellipse_filled 0 0 80 100 (RGB 255 0 0) 0]\<rparr>]) \<and>
   shape_list (move (BouncingBall_init 3 4 80 100 4 4 (RGB 255 0 0))) =
     shape_list (BouncingBall_init 3 4 80 100 4 4 (RGB 255 0 0)) \<and>
   shape_list (Shape_init 3 4 20 20 0 0 0 0 (RGB 255 0 0) Shape_cls) = None \<and>
   draw (Shape_init 3 4 20 20 0 0 0 0 (RGB 255 0 0) Shape_cls) [] = Inl AttributeError"
  using draw_writes_transform_only
    [of "BouncingBall_init 3 4 80 100 4 4 (RGB 255 0 0)"
      "\<lparr>center_x = 0, center_y = 0, ShapeElementList.angle = 0,
        elements = [create_ellipse_filled 0 0 80 100 (RGB 255 0 0) 0]\<rparr>" "[]"]
    draw_writes_transform_only
    [of "Shape_init 3 4 20 20 0 0 0 0 (RGB 255 0 0) Shape_cls" ShapeElementList_new "[]"]
  by (simp add: BouncingBall_init_eq Shape_init_def)

subsection \<open>The scene\<close>

lemma on_update_loop_map: "on_update_loop es = map move es"
  by (induction es) (simp_all add: Let_def)

lemma on_draw_loop_eq:
  "\<forall>e \<in> set es. shape_list e \<noteq> None \<Longrightarrow>
   on_draw_loop es fb =
     Inr (map (\<lambda>e. e\<lparr>shape_list := Some ((the (shape_list e))
                  \<lparr>center_x := x e, center_y := y e,
                    ShapeElementList.angle := Shape.angle e\<rparr>)\<rparr>) es,
          fb @ map (\<lambda>e. (the (shape_list e))
                  \<lparr>center_x := x e, center_y := y e,
                    ShapeElementList.angle := Shape.angle e\<rparr>) es)"
proof (induction es arbitrary: fb)
  case Nil
  show ?case by simp
next
  case (Cons e es)
  from Cons.prems obtain sl where sl: "shape_list e = Some sl"
    by auto
  from Cons.prems have "\<forall>e \<in> set es. shape_list e \<noteq> None"
    by simp
  from Cons.IH [OF this] sl show ?case
    by (simp add: draw_Some)
qed

text \<open>
  Claim C7. One tick applies \<^verbatim>\<open>move\<close> exactly once to every entity of the collection, in
  collection order, with no reordering and no filtering. One frame, on a scene whose
  entities all own a batch, issues exactly one render call per entity, in collection order:
  the render call of entity \<open>i\<close> is the result of \<^verbatim>\<open>draw\<close> on entity \<open>i\<close> after the
  render calls of the \<open>i\<close> entities before it, so later entities are painted over earlier
  ones.
\<close>

theorem scene_update_and_draw_in_order:
  "(shapeList gp = Some es \<longrightarrow>
      on_update gp dt = Inr (gp\<lparr>shapeList := Some (map move es)\<rparr>)) \<and>
   (shapeList gp = Some es \<and> (\<forall>e \<in> set es. shape_list e \<noteq> None) \<longrightarrow>
      (\<exists>es' fb'. on_draw gp fb = Inr (gp\<lparr>shapeList := Some es'\<rparr>, fb') \<and>
         length es' = length es \<and> length fb' = length es \<and>
         (\<forall>i < length es.
            draw (es ! i) (take i fb') = Inr (es' ! i, take (Suc i) fb'))))"
proof (intro conjI impI)
  assume "shapeList gp = Some es"
  then show "on_update gp dt = Inr (gp\<lparr>shapeList := Some (map move es)\<rparr>)"
    by (simp add: on_update_def on_update_loop_map)
next
  assume a: "shapeList gp = Some es \<and> (\<forall>e \<in> set es. shape_list e \<noteq> None)"
  let ?P = "\<lambda>e. (the (shape_list e))
              \<lparr>center_x := x e, center_y := y e, ShapeElementList.angle := Shape.angle e\<rparr>"
  let ?D = "\<lambda>e. e\<lparr>shape_list := Some (?P e)\<rparr>"
  from a have all: "\<forall>e \<in> set es. shape_list e \<noteq> None"
    by simp
  have run: "on_draw gp fb = Inr (gp\<lparr>shapeList := Some (map ?D es)\<rparr>, map ?P es)"
    using a on_draw_loop_eq [OF all, of "[]"]
    by (simp add: on_draw_def start_render_def)
  have each: "draw (es ! i) (take i (map ?P es)) = Inr (map ?D es ! i, take (Suc i) (map ?P es))"
    if i: "i < length es" for i
  proof -
    from i all obtain sl where sl: "shape_list (es ! i) = Some sl"
      by (metis nth_mem not_None_eq)
    have "take (Suc i) (map ?P es) = take i (map ?P es) @ [?P (es ! i)]"
      using i by (simp add: take_Suc_conv_app_nth)
    with sl i show ?thesis
      by (simp add: draw_Some)
  qed
  show "\<exists>es' fb'. on_draw gp fb = Inr (gp\<lparr>shapeList := Some es'\<rparr>, fb') \<and>
         length es' = length es \<and> length fb' = length es \<and>
         (\<forall>i < length es.
            draw (es ! i) (take i fb') = Inr (es' ! i, take (Suc i) fb'))"
    using run each by (intro exI [of _ "map ?D es"] exI [of _ "map ?P es"]) simp
qed

theorem scene_update_and_draw_in_order_witness:
  "shapeList (GamePlay_init\<lparr>shapeList := Some
       [BouncingBall_init 0 0 80 100 4 4 (RGB 255 0 0),
        BouncingBall_init 800 0 80 100 (- 4) 4 (RGB 0 255 0)]\<rparr>) =
     Some [BouncingBall_init 0 0 80 100 4 4 (RGB 255 0 0),
           BouncingBall_init 800 0 80 100 (- 4) 4 (RGB 0 255 0)] \<and>
   shape_list (BouncingBall_init 0 0 80 100 4 4 (RGB 255 0 0)) =
     Some \<lparr>center_x = 0, center_y = 0, ShapeElementList.angle = 0,
       elements = [create_ellipse_filled 0 0 80 100 (RGB 255 0 0) 0]\<rparr> \<and>
   shape_list (BouncingBall_init 800 0 80 100 (- 4) 4 (RGB 0 255 0)) =
     Some \<lparr>center_x = 0, center_y = 0, ShapeElementList.angle = 0,
       elements = [create_ellipse_filled 0 0 80 100 (RGB 0 255 0) 0]\<rparr> \<and>
   on_update (GamePlay_init\<lparr>shapeList := Some
       [BouncingBall_init 0 0 80 100 4 4 (RGB 255 0 0),
        BouncingBall_init 800 0 80 100 (- 4) 4 (RGB 0 255 0)]\<rparr>) (1 / 30) =
     Inr (GamePlay_init\<lparr>shapeList := Some
       [move (BouncingBall_init 0 0 80 100 4 4 (RGB 255 0 0)),
        move (BouncingBall_init 800 0 80 100 (- 4) 4 (RGB 0 255 0))]\<rparr>) \<and>
   on_draw (GamePlay_init\<lparr>shapeList := Some
       [BouncingBall_init 0 0 80 100 4 4 (RGB 255 0 0),
        BouncingBall_init 800 0 80 100 (- 4) 4 (RGB 0 255 0)]\<rparr>) [] =
     Inr (GamePlay_init\<lparr>shapeList := Some
       [(BouncingBall_init 0 0 80 100 4 4 (RGB 255 0 0))
          \<lparr>shape_list := Some \<lparr>center_x = 0, center_y = 0, ShapeElementList.angle = 0,
             elements = [create_ellipse_filled 0 0 80 100 (RGB 255 0 0) 0]\<rparr>\<rparr>,
        (BouncingBall_init 800 0 80 100 (- 4) 4 (RGB 0 255 0))
          \<lparr>shape_list := Some \<lparr>center_x = 800, center_y = 0, ShapeElementList.angle = 0,
             elements = [create_ellipse_filled 0 0 80 100 (RGB 0 255 0) 0]\<rparr>\<rparr>]\<rparr>,
       [\<lparr>center_x = 0, center_y = 0, ShapeElementList.angle = 0,
          elements = [create_ellipse_filled 0 0 80 100 (RGB 255 0 0) 0]\<rparr>,
        \<lparr>center_x = 800, center_y = 0, ShapeElementList.angle = 0,
          elements = [create_ellipse_filled 0 0 80 100 (RGB 0 255 0) 0]\<rparr>])"
  using scene_update_and_draw_in_order
    [of "GamePlay_init\<lparr>shapeList := Some
       [BouncingBall_init 0 0 80 100 4 4 (RGB 255 0 0),
        BouncingBall_init 800 0 80 100 (- 4) 4 (RGB 0 255 0)]\<rparr>"
      "[BouncingBall_init 0 0 80 100 4 4 (RGB 255 0 0),
        BouncingBall_init 800 0 80 100 (- 4) 4 (RGB 0 255 0)]" "1 / 30" "[]"]
  by (simp add: BouncingBall_init_eq on_draw_def start_render_def draw_def Shape_draw_def
      Let_def ShapeElementList_draw_def)

subsection \<open>Construction of the wheel\<close>

lemma Wheel_spoke_eq:
  "Wheel_spoke n radius stepAngle cols colorCount sl =
     sl\<lparr>elements := elements sl @
        [create_line 0 0 (radius * cos (of_int n * stepAngle))
           (radius * sin (of_int n * stepAngle)) (cols ! nat (n mod colorCount)) (0.1 * radius),
         create_ellipse (1.2 * (radius * cos (of_int n * stepAngle)))
           (1.2 * (radius * sin (of_int n * stepAngle))) (0.3 * radius) (0.3 * radius)
           (cols ! nat (n mod colorCount))]\<rparr>"
  by (simp add: Wheel_spoke_def Let_def ShapeElementList_append_def)

lemma Wheel_loop_eq:
  "Wheel_loop n spokes radius stepAngle cols colorCount sl =
     sl\<lparr>elements := elements sl @
        concat (map (\<lambda>k.
          [create_line 0 0 (radius * cos (of_int k * stepAngle))
             (radius * sin (of_int k * stepAngle)) (cols ! nat (k mod colorCount)) (0.1 * radius),
           create_ellipse (1.2 * (radius * cos (of_int k * stepAngle)))
             (1.2 * (radius * sin (of_int k * stepAngle))) (0.3 * radius) (0.3 * radius)
             (cols ! nat (k mod colorCount))]) [n..spokes - 1])\<rparr>"
proof (induction n spokes radius stepAngle cols colorCount sl rule: Wheel_loop.induct)
  case (1 n spokes radius stepAngle cols colorCount sl)
  show ?case
  proof (cases "n < spokes")
    case True
    then have u: "[n..spokes - 1] = n # [n + 1..spokes - 1]"
      by (simp add: upto_rec1)
    have "Wheel_loop n spokes radius stepAngle cols colorCount sl =
          Wheel_loop (n + 1) spokes radius stepAngle cols colorCount
            (Wheel_spoke n radius stepAngle cols colorCount sl)"
      by (subst Wheel_loop.simps) (simp add: True)
    also note "1.IH" [OF True]
    finally show ?thesis
      by (simp add: u Wheel_spoke_eq)
  next
    case False
    then have "[n..spokes - 1] = []"
      by simp
    moreover have "Wheel_loop n spokes radius stepAngle cols colorCount sl = sl"
      by (subst Wheel_loop.simps) (simp add: False)
    ultimately show ?thesis
      by simp
  qed
qed

lemma concat_pairs_length: "length (concat (map (\<lambda>k. [f k, g k]) ks)) = 2 * length ks"
  by (induction ks) simp_all

lemma concat_pairs_nth:
  "i < length ks \<Longrightarrow>
   concat (map (\<lambda>k. [f k, g k]) ks) ! (2 * i) = f (ks ! i) \<and>
   concat (map (\<lambda>k. [f k, g k]) ks) ! (2 * i + 1) = g (ks ! i)"
proof (induction ks arbitrary: i)
  case Nil
  then show ?case by simp
next
  case (Cons k ks)
  show ?case
  proof (cases i)
    case 0
    then show ?thesis by simp
  next
    case (Suc j)
    with Cons.prems have "j < length ks" by simp
    from Cons.IH [OF this] Suc show ?thesis by simp
  qed
qed


lemma Wheel_init_eq:
  "spokes \<noteq> 0 \<Longrightarrow>
   Wheel_init start_x start_y radius spokes a dx dy dAngle =
     Inr \<lparr>Shape.swd = 800, Shape.sht = 560, Shape.cx = 400, Shape.cy = 280,
       x = start_x, y = start_y, width = 20, height = 20, angle = 0,
       delta_x = dx, delta_y = dy, delta_angle = dAngle, color = RGB 255 0 0, count = 0,
       shape_list = Some \<lparr>center_x = 0, center_y = 0, ShapeElementList.angle = 0,
         elements =
           concat (map (\<lambda>k.
             [create_line 0 0 (radius * cos (of_int k * (2 * pi / of_int spokes)))
                (radius * sin (of_int k * (2 * pi / of_int spokes)))
                ([RGB 255 0 0, RGB 0 255 0, RGB 0 0 255] ! nat (k mod 3)) (0.1 * radius),
              create_ellipse (1.2 * (radius * cos (of_int k * (2 * pi / of_int spokes))))
                (1.2 * (radius * sin (of_int k * (2 * pi / of_int spokes))))
                (0.3 * radius) (0.3 * radius)
                ([RGB 255 0 0, RGB 0 255 0, RGB 0 0 255] ! nat (k mod 3))]) [0..spokes - 1])
           @ [create_ellipse 0 0 (0.15 * radius) (0.15 * radius) (RGB 0 0 0)]\<rparr>,
       \<dots> = Wheel_cls [RGB 255 0 0, RGB 0 255 0, RGB 0 0 255]\<rparr>"
  by (simp add: Wheel_init_def truediv_def Shape_init_def Let_def ShapeElementList_new_def
      ShapeElementList_append_def Wheel_loop_eq SCREEN_WIDTH_def SCREEN_HEIGHT_def)


lemma spokes_length:
  "0 \<le> S \<Longrightarrow> length (concat (map (\<lambda>k. [f k, g k]) [0..S - 1]) @ [c]) = 2 * nat S + 1"
  by (simp add: concat_pairs_length)

lemma spokes_nth:
  assumes "0 \<le> n" "n < S"
  shows "(concat (map (\<lambda>k. [f k, g k]) [0..S - 1]) @ [c]) ! (2 * nat n) = f n"
    and "(concat (map (\<lambda>k. [f k, g k]) [0..S - 1]) @ [c]) ! (2 * nat n + 1) = g n"
proof -
  from assms have i: "nat n < length [0..S - 1]"
    by simp
  from assms have at: "[0..S - 1] ! nat n = n"
    by (simp add: nth_upto)
  from i have "2 * nat n + 1 < 2 * length [0..S - 1]"
    by linarith
  then have lt: "2 * nat n < length (concat (map (\<lambda>k. [f k, g k]) [0..S - 1]))"
    "2 * nat n + 1 < length (concat (map (\<lambda>k. [f k, g k]) [0..S - 1]))"
    by (simp_all only: concat_pairs_length)
  from concat_pairs_nth [OF i, of f g] at
  have "concat (map (\<lambda>k. [f k, g k]) [0..S - 1]) ! (2 * nat n) = f n"
    "concat (map (\<lambda>k. [f k, g k]) [0..S - 1]) ! (2 * nat n + 1) = g n"
    by simp_all
  with lt show "(concat (map (\<lambda>k. [f k, g k]) [0..S - 1]) @ [c]) ! (2 * nat n) = f n"
    "(concat (map (\<lambda>k. [f k, g k]) [0..S - 1]) @ [c]) ! (2 * nat n + 1) = g n"
    by (simp_all only: nth_append if_True)
qed

lemma spokes_centre:
  assumes "0 \<le> S"
  shows "(concat (map (\<lambda>k. [f k, g k]) [0..S - 1]) @ [c]) ! (2 * nat S) = c"
proof -
  from assms have "length (concat (map (\<lambda>k. [f k, g k]) [0..S - 1])) = 2 * nat S"
    by (simp add: concat_pairs_length)
  then show ?thesis
    by (metis nth_append_length)
qed

lemma spoke_distance:
  "sqrt ((radius * cos t)\<^sup>2 + (radius * sin t)\<^sup>2) = \<bar>radius\<bar>"
proof -
  have "(radius * cos t)\<^sup>2 + (radius * sin t)\<^sup>2 = radius\<^sup>2 * ((cos t)\<^sup>2 + (sin t)\<^sup>2)"
    by (simp only: power_mult_distrib distrib_left)
  also have "\<dots> = radius\<^sup>2"
    by (simp only: sin_cos_squared_add2 mult.right_neutral)
  finally show ?thesis
    by simp
qed

text \<open>
  Claim C5. For every spoke count \<open>S \<ge> 1\<close> and radius \<open>R\<close>, the constructor of the wheel
  returns a wheel whose batch holds exactly \<open>2 S + 1\<close> primitives: for each spoke
  \<open>n < S\<close>, at index \<open>2 n\<close> the line from the origin to the point at angle
  \<open>n (2 \<pi> / S)\<close> and distance \<open>R\<close>, of width \<open>0.1 R\<close> and colour \<open>palette[n mod 3]\<close>, and at
  index \<open>2 n + 1\<close> the outer disc of the same colour, centred at 1.2 times that end point
  with size \<open>0.3 R\<close>; the last primitive, after all spokes, is the black centre disc of
  size \<open>0.15 R\<close>.
\<close>

theorem Wheel_init_batch:
  "1 \<le> spokes \<longrightarrow>
   (\<exists>self sl.
      Wheel_init start_x start_y radius spokes a dx dy dAngle = Inr self \<and>
      shape_list self = Some sl \<and>
      length (elements sl) = 2 * nat spokes + 1 \<and>
      (\<forall>n. 0 \<le> n \<and> n < spokes \<longrightarrow>
         elements sl ! (2 * nat n) =
           create_line 0 0 (radius * cos (of_int n * (2 * pi / of_int spokes)))
             (radius * sin (of_int n * (2 * pi / of_int spokes)))
             ([RGB 255 0 0, RGB 0 255 0, RGB 0 0 255] ! nat (n mod 3)) (0.1 * radius) \<and>
         elements sl ! (2 * nat n + 1) =
           create_ellipse (1.2 * (radius * cos (of_int n * (2 * pi / of_int spokes))))
             (1.2 * (radius * sin (of_int n * (2 * pi / of_int spokes))))
             (0.3 * radius) (0.3 * radius)
             ([RGB 255 0 0, RGB 0 255 0, RGB 0 0 255] ! nat (n mod 3)) \<and>
         sqrt ((radius * cos (of_int n * (2 * pi / of_int spokes)))\<^sup>2 +
               (radius * sin (of_int n * (2 * pi / of_int spokes)))\<^sup>2) = \<bar>radius\<bar>) \<and>
      elements sl ! (2 * nat spokes) =
        create_ellipse 0 0 (0.15 * radius) (0.15 * radius) (RGB 0 0 0) \<and>
      last (elements sl) = create_ellipse 0 0 (0.15 * radius) (0.15 * radius) (RGB 0 0 0))"
proof
  assume s1: "1 \<le> spokes"
  let ?line = "\<lambda>k. create_line 0 0 (radius * cos (of_int k * (2 * pi / of_int spokes)))
                (radius * sin (of_int k * (2 * pi / of_int spokes)))
                ([RGB 255 0 0, RGB 0 255 0, RGB 0 0 255] ! nat (k mod 3)) (0.1 * radius)"
  let ?disc = "\<lambda>k. create_ellipse (1.2 * (radius * cos (of_int k * (2 * pi / of_int spokes))))
                (1.2 * (radius * sin (of_int k * (2 * pi / of_int spokes))))
                (0.3 * radius) (0.3 * radius)
                ([RGB 255 0 0, RGB 0 255 0, RGB 0 0 255] ! nat (k mod 3))"
  let ?centre = "create_ellipse 0 0 (0.15 * radius) (0.15 * radius) (RGB 0 0 0)"
  let ?ps = "concat (map (\<lambda>k. [?line k, ?disc k]) [0..spokes - 1]) @ [?centre]"
  let ?sl = "\<lparr>center_x = 0, center_y = 0, ShapeElementList.angle = 0, elements = ?ps\<rparr>"
  from s1 have nz: "spokes \<noteq> 0" and s0: "0 \<le> spokes"
    by simp_all
  obtain self where w: "Wheel_init start_x start_y radius spokes a dx dy dAngle = Inr self"
    and b: "shape_list self = Some ?sl"
    using Wheel_init_eq [OF nz, of start_x start_y radius a dx dy dAngle] by simp
  have e: "elements ?sl = ?ps"
    by simp
  have len: "length ?ps = 2 * nat spokes + 1"
    by (rule spokes_length [OF s0])
  have centre: "?ps ! (2 * nat spokes) = ?centre"
    by (rule spokes_centre [OF s0])
  have lst: "last ?ps = ?centre"
    by (rule last_snoc)
  have spoke: "?ps ! (2 * nat n) = ?line n \<and> ?ps ! (2 * nat n + 1) = ?disc n \<and>
               sqrt ((radius * cos (of_int n * (2 * pi / of_int spokes)))\<^sup>2 +
                     (radius * sin (of_int n * (2 * pi / of_int spokes)))\<^sup>2) = \<bar>radius\<bar>"
    if n: "0 \<le> n \<and> n < spokes" for n
  proof (intro conjI)
    from n have n0: "0 \<le> n" and n1: "n < spokes"
      by simp_all
    show "?ps ! (2 * nat n) = ?line n"
      by (rule spokes_nth (1) [OF n0 n1])
    show "?ps ! (2 * nat n + 1) = ?disc n"
      by (rule spokes_nth (2) [OF n0 n1])
    show "sqrt ((radius * cos (of_int n * (2 * pi / of_int spokes)))\<^sup>2 +
                (radius * sin (of_int n * (2 * pi / of_int spokes)))\<^sup>2) = \<bar>radius\<bar>"
      by (rule spoke_distance)
  qed
  show "\<exists>self sl.
      Wheel_init start_x start_y radius spokes a dx dy dAngle = Inr self \<and>
      shape_list self = Some sl \<and>
      length (elements sl) = 2 * nat spokes + 1 \<and>
      (\<forall>n. 0 \<le> n \<and> n < spokes \<longrightarrow>
         elements sl ! (2 * nat n) = ?line n \<and>
         elements sl ! (2 * nat n + 1) = ?disc n \<and>
         sqrt ((radius * cos (of_int n * (2 * pi / of_int spokes)))\<^sup>2 +
               (radius * sin (of_int n * (2 * pi / of_int spokes)))\<^sup>2) = \<bar>radius\<bar>) \<and>
      elements sl ! (2 * nat spokes) = ?centre \<and>
      last (elements sl) = ?centre"
  proof (intro exI [of _ self] exI [of _ ?sl] conjI allI impI)
    show "Wheel_init start_x start_y radius spokes a dx dy dAngle = Inr self"
      by (rule w)
    show "shape_list self = Some ?sl"
      by (rule b)
    show "length (elements ?sl) = 2 * nat spokes + 1"
      unfolding e by (rule len)
    show "elements ?sl ! (2 * nat spokes) = ?centre"
      unfolding e by (rule centre)
    show "last (elements ?sl) = ?centre"
      unfolding e by (rule lst)
  next
    fix n assume n: "0 \<le> n \<and> n < spokes"
    from spoke [OF n]
    show "elements ?sl ! (2 * nat n) = ?line n"
      "elements ?sl ! (2 * nat n + 1) = ?disc n"
      "sqrt ((radius * cos (of_int n * (2 * pi / of_int spokes)))\<^sup>2 +
             (radius * sin (of_int n * (2 * pi / of_int spokes)))\<^sup>2) = \<bar>radius\<bar>"
      unfolding e by blast+
  qed
qed


theorem Wheel_init_batch_witness:
  "(1::int) \<le> 3 \<and>
   (\<exists>self sl.
      Wheel_init 0 0 50 3 0 0 0 0 = Inr self \<and>
      shape_list self = Some sl \<and>
      length (elements sl) = 7 \<and>
      elements sl ! 0 = create_line 0 0 50 0 (RGB 255 0 0) 5 \<and>
      elements sl ! 1 = create_ellipse 60 0 15 15 (RGB 255 0 0) \<and>
      elements sl ! 2 =
        create_line 0 0 (50 * cos (2 * pi / 3)) (50 * sin (2 * pi / 3)) (RGB 0 255 0) 5 \<and>
      elements sl ! 4 =
        create_line 0 0 (50 * cos (2 * (2 * pi / 3))) (50 * sin (2 * (2 * pi / 3)))
          (RGB 0 0 255) 5 \<and>
      elements sl ! 6 = create_ellipse 0 0 7.5 7.5 (RGB 0 0 0))"
proof -
  have h: "(1::int) \<le> 3"
    by simp
  from Wheel_init_batch [where spokes = 3 and start_x = 0 and start_y = 0 and radius = 50
      and a = 0 and dx = 0 and dy = 0 and dAngle = 0, THEN mp, OF h]
  obtain self sl where w: "Wheel_init 0 0 50 3 0 0 0 0 = Inr self"
    and b: "shape_list self = Some sl"
    and len: "length (elements sl) = 2 * nat 3 + 1"
    and sp: "\<forall>n. 0 \<le> n \<and> n < 3 \<longrightarrow>
         elements sl ! (2 * nat n) =
           create_line 0 0 (50 * cos (of_int n * (2 * pi / of_int 3)))
             (50 * sin (of_int n * (2 * pi / of_int 3)))
             ([RGB 255 0 0, RGB 0 255 0, RGB 0 0 255] ! nat (n mod 3)) (0.1 * 50) \<and>
         elements sl ! (2 * nat n + 1) =
           create_ellipse (1.2 * (50 * cos (of_int n * (2 * pi / of_int 3))))
             (1.2 * (50 * sin (of_int n * (2 * pi / of_int 3))))
             (0.3 * 50) (0.3 * 50)
             ([RGB 255 0 0, RGB 0 255 0, RGB 0 0 255] ! nat (n mod 3)) \<and>
         sqrt ((50 * cos (of_int n * (2 * pi / of_int 3)))\<^sup>2 +
               (50 * sin (of_int n * (2 * pi / of_int 3)))\<^sup>2) = \<bar>50 :: real\<bar>"
    and c: "elements sl ! (2 * nat 3) = create_ellipse 0 0 (0.15 * 50) (0.15 * 50) (RGB 0 0 0)"
    by blast
  from sp [THEN spec, of 0]
  have p0: "elements sl ! 0 = create_line 0 0 50 0 (RGB 255 0 0) 5"
    and p1: "elements sl ! 1 = create_ellipse 60 0 15 15 (RGB 255 0 0)"
    by simp_all
  from sp [THEN spec, of 1]
  have p2: "elements sl ! 2 =
      create_line 0 0 (50 * cos (2 * pi / 3)) (50 * sin (2 * pi / 3)) (RGB 0 255 0) 5"
    by simp
  from sp [THEN spec, of 2]
  have p4: "elements sl ! 4 =
      create_line 0 0 (50 * cos (2 * (2 * pi / 3))) (50 * sin (2 * (2 * pi / 3)))
        (RGB 0 0 255) 5"
    by simp
  from len have l7: "length (elements sl) = 7"
    by simp
  from c have p6: "elements sl ! 6 = create_ellipse 0 0 7.5 7.5 (RGB 0 0 0)"
    by simp
  from h w b l7 p0 p1 p2 p4 p6 show ?thesis
    by blast
qed

subsection \<open>A wheel with no spokes\<close>




subsection \<open>Composition of the scene built by \<^verbatim>\<open>GamePlay.setup\<close>\<close>

lemma Wheel_init_is_Wheel:
  "spokes \<noteq> 0 \<Longrightarrow>
   \<exists>w. Wheel_init start_x start_y radius spokes a dx dy dAngle = Inr w \<and>
     Shape.more w = Wheel_cls [RGB 255 0 0, RGB 0 255 0, RGB 0 0 255]"
  by (simp add: Wheel_init_eq)

lemma SnowDrop_init_is_SnowDrop:
  "Shape.more (SnowDrop_init px py w h a dx dy da col) = SnowDrop_cls"
  by (simp add: SnowDrop_init_eq)

lemma BouncingBall_init_is_BouncingBall:
  "Shape.more (BouncingBall_init start_x start_y w h dx dy col) = BouncingBall_cls"
  by (simp add: BouncingBall_init_eq)

lemma setup_body_composition:
  "\<exists>new g'. setup_body self n sl g = Inr (sl @ new, g') \<and>
     length new = 7 \<and>
     length (filter (\<lambda>e. is_SnowDrop (Shape.more e)) new) = 1 \<and>
     length (filter (\<lambda>e. is_Wheel (Shape.more e)) new) = 4 \<and>
     length (filter (\<lambda>e. is_BouncingBall (Shape.more e)) new) = 2"
proof -
  have nz: "(3::int) \<noteq> 0"
    by simp
  obtain w1 where w1: "Wheel_init 0 (cy self) 150 3 0 1 0 1 = Inr w1"
    "Shape.more w1 = Wheel_cls [RGB 255 0 0, RGB 0 255 0, RGB 0 0 255]"
    using Wheel_init_is_Wheel [OF nz] by blast
  obtain w2 where w2: "Wheel_init (swd self) (cy self) 150 3 0 (- 1) 0 (- 1) = Inr w2"
    "Shape.more w2 = Wheel_cls [RGB 255 0 0, RGB 0 255 0, RGB 0 0 255]"
    using Wheel_init_is_Wheel [OF nz] by blast
  obtain w3 where w3: "Wheel_init (cx self) (sht self) 80 3 0 0 (- 2) 4 = Inr w3"
    "Shape.more w3 = Wheel_cls [RGB 255 0 0, RGB 0 255 0, RGB 0 0 255]"
    using Wheel_init_is_Wheel [OF nz] by blast
  obtain w4 where w4: "Wheel_init (cx self) 0 80 3 0 0 2 (- 4) = Inr w4"
    "Shape.more w4 = Wheel_cls [RGB 255 0 0, RGB 0 255 0, RGB 0 0 255]"
    using Wheel_init_is_Wheel [OF nz] by blast
  show ?thesis
    by (simp add: setup_body_def Let_def split_def w1 w2 w3 w4
        SnowDrop_init_is_SnowDrop BouncingBall_init_is_BouncingBall)
qed

lemma setup_loop_composition:
  "\<exists>new g'. setup_loop self n sl g = Inr (sl @ new, g') \<and>
     length new = 7 * nat (numSnowDrops self - n) \<and>
     length (filter (\<lambda>e. is_SnowDrop (Shape.more e)) new) = nat (numSnowDrops self - n) \<and>
     length (filter (\<lambda>e. is_Wheel (Shape.more e)) new) = 4 * nat (numSnowDrops self - n) \<and>
     length (filter (\<lambda>e. is_BouncingBall (Shape.more e)) new) =
       2 * nat (numSnowDrops self - n)"
proof (induction self n sl g rule: setup_loop.induct)
  case (1 self n sl g)
  show ?case
  proof (cases "n < numSnowDrops self")
    case False
    then have "setup_loop self n sl g = Inr (sl, g)"
      by (subst setup_loop.simps) simp
    with False show ?thesis
      by simp
  next
    case True
    obtain new1 g1 where b: "setup_body self n sl g = Inr (sl @ new1, g1)"
      and c1: "length new1 = 7"
        "length (filter (\<lambda>e. is_SnowDrop (Shape.more e)) new1) = 1"
        "length (filter (\<lambda>e. is_Wheel (Shape.more e)) new1) = 4"
        "length (filter (\<lambda>e. is_BouncingBall (Shape.more e)) new1) = 2"
      using setup_body_composition [of self n sl g] by blast
    from "1.IH" [OF True b refl]
    obtain new2 g2 where r: "setup_loop self (n + 1) (sl @ new1) g1 = Inr ((sl @ new1) @ new2, g2)"
      and c2: "length new2 = 7 * nat (numSnowDrops self - (n + 1))"
        "length (filter (\<lambda>e. is_SnowDrop (Shape.more e)) new2) =
           nat (numSnowDrops self - (n + 1))"
        "length (filter (\<lambda>e. is_Wheel (Shape.more e)) new2) =
           4 * nat (numSnowDrops self - (n + 1))"
        "length (filter (\<lambda>e. is_BouncingBall (Shape.more e)) new2) =
           2 * nat (numSnowDrops self - (n + 1))"
      by blast
    have step: "setup_loop self n sl g = Inr (sl @ (new1 @ new2), g2)"
      by (subst setup_loop.simps) (simp add: True b r)
    from True have k: "nat (numSnowDrops self - n) = Suc (nat (numSnowDrops self - (n + 1)))"
      by simp
    show ?thesis
      using step c1 c2 by (intro exI [of _ "new1 @ new2"] exI [of _ g2]) (simp add: k)
  qed
qed

lemma GamePlay_setup_composition:
  "\<exists>gp g' es. GamePlay_setup self g = Inr (gp, g') \<and> shapeList gp = Some es \<and>
     length es = 7 * nat (numSnowDrops self) \<and>
     length (filter (\<lambda>e. is_SnowDrop (Shape.more e)) es) = nat (numSnowDrops self) \<and>
     length (filter (\<lambda>e. is_Wheel (Shape.more e)) es) = 4 * nat (numSnowDrops self) \<and>
     length (filter (\<lambda>e. is_BouncingBall (Shape.more e)) es) = 2 * nat (numSnowDrops self)"
proof -
  let ?self = "self\<lparr>background_color := Some (RGB 70 70 70), shapeList := Some []\<rparr>"
  from setup_loop_composition [of ?self 0 "[]" g]
  obtain new g' where r: "setup_loop ?self 0 [] g = Inr (new, g')"
    and c: "length new = 7 * nat (numSnowDrops self)"
      "length (filter (\<lambda>e. is_SnowDrop (Shape.more e)) new) = nat (numSnowDrops self)"
      "length (filter (\<lambda>e. is_Wheel (Shape.more e)) new) = 4 * nat (numSnowDrops self)"
      "length (filter (\<lambda>e. is_BouncingBall (Shape.more e)) new) = 2 * nat (numSnowDrops self)"
    by auto
  have "GamePlay_setup self g = Inr (?self\<lparr>shapeList := Some new\<rparr>, g')"
    by (simp add: GamePlay_setup_def Let_def r)
  with c show ?thesis
    by simp
qed

text \<open>
  Claim C2 states that \<^verbatim>\<open>setup\<close> on a scene with snow-particle count \<open>N\<close> builds exactly
  \<open>N\<close> falling particles, exactly four wheels and exactly two bouncing balls. The source
  creates the four wheels and the two balls inside the loop over the snow drops, once per
  iteration: with the count 250 that \<^verbatim>\<open>GamePlay.__init__\<close> sets, and for every random
  source, \<^verbatim>\<open>setup\<close> returns a collection of 1750 entities, of which 250 are snow drops,
  1000 are wheels and 500 are balls.
\<close>

theorem GamePlay_setup_default_composition:
  "\<exists>gp g' es. GamePlay_setup GamePlay_init g = Inr (gp, g') \<and> shapeList gp = Some es \<and>
     length es = 1750 \<and>
     length (filter (\<lambda>e. is_SnowDrop (Shape.more e)) es) = 250 \<and>
     length (filter (\<lambda>e. is_Wheel (Shape.more e)) es) = 1000 \<and>
     length (filter (\<lambda>e. is_BouncingBall (Shape.more e)) es) = 500"
proof -
  have n: "numSnowDrops GamePlay_init = 250"
    by (simp add: GamePlay_init_def)
  from GamePlay_setup_composition [of GamePlay_init g] show ?thesis
    by (simp add: n)
qed

end
